theory Spec2Isabelle
  imports Main
begin

section \<open>Phone verification handlers and the profile trigger\<close>

text \<open>
  The repository holds two edge functions, \<^verbatim>\<open>verification-start\<close> and
  \<^verbatim>\<open>verification-verify\<close>, and one SQL trigger, \<^verbatim>\<open>handle_new_user\<close>.
  Each handler is a function from a request and the answers of the identity provider to
  a response; the calls it makes to the provider are returned beside the response, in
  the order they are made, so that "no call is made" is a statement about that list.
\<close>

subsection \<open>Values on the wire\<close>

datatype json =
    JNull
  | JBool bool
  | JNum int
  | JStr string
  | JArr "json list"
  | JObj "(string \<times> json) list"

text \<open>\<^verbatim>\<open>x ?? null\<close> on a text column: \<^verbatim>\<open>undefined\<close> and \<^verbatim>\<open>null\<close> both become \<^verbatim>\<open>null\<close>.\<close>

fun or_null :: "string option \<Rightarrow> json" where
  "or_null None = JNull"
| "or_null (Some s) = JStr s"

text \<open>
  \<^verbatim>\<open>JSON.stringify\<close> of an object literal leaves out every key whose value is
  \<^verbatim>\<open>undefined\<close>.
\<close>

fun js_object :: "(string \<times> json option) list \<Rightarrow> (string \<times> json) list" where
  "js_object [] = []"
| "js_object ((k, None) # kvs) = js_object kvs"
| "js_object ((k, Some v) # kvs) = (k, v) # js_object kvs"

datatype body = Text string | Json json

record response =
  status :: nat
  headers :: "(string \<times> string) list"
  body :: body

definition corsHeaders :: "(string \<times> string) list" where
  "corsHeaders =
     [(''Access-Control-Allow-Origin'', ''*''),
      (''Access-Control-Allow-Headers'', ''authorization, x-client-info, apikey, content-type'')]"

text \<open>\<^verbatim>\<open>new Response('ok', { headers: corsHeaders })\<close>: the status defaults to 200.\<close>

definition preflight :: response where
  "preflight = \<lparr>status = 200, headers = corsHeaders, body = Text ''ok''\<rparr>"

text \<open>
  \<^verbatim>\<open>new Response(JSON.stringify(v), { status: n, headers: { ...corsHeaders,
  'Content-Type': 'application/json' } })\<close>. The body is kept as the value that is
  serialised.
\<close>

definition json_response :: "nat \<Rightarrow> json \<Rightarrow> response" where
  "json_response n v =
     \<lparr>status = n,
      headers = corsHeaders @ [(''Content-Type'', ''application/json'')],
      body = Json v\<rparr>"

definition error_response :: "nat \<Rightarrow> string \<Rightarrow> response" where
  "error_response n msg = json_response n (JObj [(''error'', JStr msg)])"

subsection \<open>Requests\<close>

text \<open>
  \<^verbatim>\<open>await req.json()\<close> rejects when the body is not JSON; destructuring the parsed
  value throws when it is \<^verbatim>\<open>null\<close>; otherwise each property is read or is absent
  (\<^verbatim>\<open>undefined\<close>, here \<open>None\<close>). The interfaces declare the properties as strings,
  and nothing checks that at run time: the start handler hands \<^verbatim>\<open>phone_number\<close> to its
  validator as whatever JSON value the body holds, and the validator's first two lines
  run on that value. The properties of the verify request are strings or absent.
\<close>

datatype 'a parsed = Unparseable | ParsedNull | Parsed 'a

record 'a request =
  req_method :: string
  payload :: "'a parsed"

record VerificationRequest =
  sr_phone_number :: "json option"

record VerificationConfirmRequest =
  phone_number :: "string option"
  verification_code :: "string option"

subsection \<open>The identity provider\<close>

text \<open>
  The provider's client library is not part of the repository. Its result types are the
  library's unions: an auth call resolves to an error or to data, and it may also throw,
  which the handlers catch. A thrown value is \<open>Inl\<close>.
\<close>

datatype js_error = JsError string

record auth_error =
  ae_message :: string
  ae_status :: nat

text \<open>A session is an object; the handler reads its \<^verbatim>\<open>access_token\<close> and nothing else.\<close>

type_synonym session = "(string \<times> json) list"

record user =
  user_id :: string
  user_phone :: string

datatype verify_result =
    VerifyError auth_error
  | VerifyData "session option" "user option"

datatype otp_result = OtpError auth_error | OtpSent

text \<open>
  The row that \<^verbatim>\<open>select('email, first_name, last_name, phone,
  correspondence_address')\<close> yields; every column is nullable text.
\<close>

record profile =
  profile_email :: "string option"
  profile_first_name :: "string option"
  profile_last_name :: "string option"
  profile_phone :: "string option"
  profile_correspondence_address :: "string option"

record postgrest_error =
  pe_message :: string
  pe_code :: string

text \<open>
  \<^verbatim>\<open>maybeSingle()\<close> is awaited without \<^verbatim>\<open>throwOnError\<close>: it resolves to a failure
  (an error, data \<^verbatim>\<open>null\<close>) or to a success whose data is the row or \<^verbatim>\<open>null\<close>.
\<close>

datatype profile_read =
    ReadFailure postgrest_error
  | ReadSuccess "profile option"

datatype provider_call =
    SignInWithOtp "json option"
  | VerifyOtp "string option" "string option"
  | SelectProfile "json option" string

record provider =
  signInWithOtp :: "json option \<Rightarrow> js_error + otp_result"
  verifyOtp :: "string option \<Rightarrow> string option \<Rightarrow> js_error + verify_result"
  selectProfile :: "json option \<Rightarrow> string \<Rightarrow> profile_read"

subsection \<open>Regular expressions of the source, as predicates\<close>

definition is_digit :: "char \<Rightarrow> bool" where
  "is_digit c = (c \<in> set ''0123456789'')"

text \<open>\<^verbatim>\<open>String(x)\<close> of a value that is a string or \<^verbatim>\<open>undefined\<close>.\<close>

fun js_String :: "string option \<Rightarrow> string" where
  "js_String None = ''undefined''"
| "js_String (Some s) = s"

text \<open>\<^verbatim>\<open>/^\+[1-9]\d{1,14}$/\<close>\<close>

fun PHONE_REGEX :: "string \<Rightarrow> bool" where
  "PHONE_REGEX (c # d # ds) =
     (c = CHR ''+'' \<and> d \<in> set ''123456789'' \<and> 1 \<le> length ds \<and> length ds \<le> 14
      \<and> list_all is_digit ds)"
| "PHONE_REGEX _ = False"

subsection \<open>verification-verify\<close>

text \<open>\<^verbatim>\<open>PHONE_REGEX.test(phone)\<close> converts its argument to a string first.\<close>

definition validatePhoneNumber_verify :: "string option \<Rightarrow> bool" where
  "validatePhoneNumber_verify phone = PHONE_REGEX (js_String phone)"

text \<open>\<^verbatim>\<open>!verification_code || verification_code.length !== 6\<close>\<close>

fun bad_code :: "string option \<Rightarrow> bool" where
  "bad_code None = True"
| "bad_code (Some c) = (c = [] \<or> length c \<noteq> 6)"

definition success_body :: "session \<Rightarrow> user \<Rightarrow> profile option \<Rightarrow> json" where
  "success_body s u userProfile =
     JObj [(''message'', JStr ''Phone verification successful''),
           (''session'', JObj s),
           (''user'', JObj [(''id'', JStr (user_id u)),
                           (''phone'', JStr (user_phone u)),
                           (''profile'', JObj
                              [(''email'', or_null (Option.bind userProfile profile_email)),
                               (''first_name'', or_null (Option.bind userProfile profile_first_name)),
                               (''last_name'', or_null (Option.bind userProfile profile_last_name)),
                               (''phone'', or_null (Option.bind userProfile profile_phone)),
                               (''correspondence_address'',
                                  or_null (Option.bind userProfile profile_correspondence_address))])])]"

text \<open>The data of the profile read: \<^verbatim>\<open>null\<close> on failure.\<close>

fun read_data :: "profile_read \<Rightarrow> profile option" where
  "read_data (ReadFailure e) = None"
| "read_data (ReadSuccess d) = d"

definition verify_after_otp ::
  "provider \<Rightarrow> string option \<Rightarrow> string option \<Rightarrow> response \<times> provider_call list" where
  "verify_after_otp p pn code =
     (case verifyOtp p pn code of
        Inl thrown \<Rightarrow>
          (error_response 500 ''Verification failed. Please try again.'', [VerifyOtp pn code])
      | Inr (VerifyError e) \<Rightarrow>
          (error_response 400 ''Invalid verification code'', [VerifyOtp pn code])
      | Inr (VerifyData None u) \<Rightarrow>
          (error_response 500 ''Verification failed. No session created.'', [VerifyOtp pn code])
      | Inr (VerifyData (Some s) None) \<Rightarrow>
          (error_response 500 ''Verification failed. No user data available.'',
           [VerifyOtp pn code])
      | Inr (VerifyData (Some s) (Some u)) \<Rightarrow>
          (let token = map_of s ''access_token'';
               userProfile = read_data (selectProfile p token (user_id u))
           in (json_response 200 (success_body s u userProfile),
               [VerifyOtp pn code, SelectProfile token (user_id u)])))"

definition verify_handler ::
  "provider \<Rightarrow> VerificationConfirmRequest request \<Rightarrow> response \<times> provider_call list" where
  "verify_handler p req =
     (if req_method req = ''OPTIONS'' then (preflight, [])
      else if req_method req \<noteq> ''POST'' then (error_response 405 ''Method not allowed'', [])
      else case payload req of
        Unparseable \<Rightarrow> (error_response 500 ''Internal server error'', [])
      | ParsedNull \<Rightarrow> (error_response 500 ''Internal server error'', [])
      | Parsed b \<Rightarrow>
          if \<not> validatePhoneNumber_verify (phone_number b)
          then (error_response 400 ''Invalid phone number format'', [])
          else if bad_code (verification_code b)
          then (error_response 400 ''Invalid verification code. Code must be 6 digits.'', [])
          else verify_after_otp p (phone_number b) (verification_code b))"

subsection \<open>verification-start\<close>

text \<open>
  The phone library is third-party code. \<^verbatim>\<open>parsePhoneNumber\<close> throws, returns
  \<^verbatim>\<open>undefined\<close>, or returns a number object whose \<^verbatim>\<open>isValid()\<close> is a boolean;
  \<^verbatim>\<open>isValidPhoneNumber\<close> is a boolean. The validator is written against all three
  outcomes.
\<close>

record PhoneNumber =
  pn_isValid :: bool

record libphonenumber =
  parsePhoneNumber :: "string \<Rightarrow> js_error + PhoneNumber option"
  isValidPhoneNumber :: "string \<Rightarrow> bool"

record validation =
  isValid :: bool
  error :: "string option"
  isTestNumber :: "bool option"

definition startsWith :: "string \<Rightarrow> string \<Rightarrow> bool" where
  "startsWith s pre = (take (length pre) s = pre)"

text \<open>\<^verbatim>\<open>/^\+1234567\d{3}$/\<close>\<close>

definition TEST_REGEX_1 :: "string \<Rightarrow> bool" where
  "TEST_REGEX_1 s =
     (take 8 s = ''+1234567'' \<and> length (drop 8 s) = 3 \<and> list_all is_digit (drop 8 s))"

text \<open>\<^verbatim>\<open>/^\+[89]{10,11}$/\<close>\<close>

fun TEST_REGEX_2 :: "string \<Rightarrow> bool" where
  "TEST_REGEX_2 [] = False"
| "TEST_REGEX_2 (c # ds) =
     (c = CHR ''+'' \<and> (length ds = 10 \<or> length ds = 11)
      \<and> list_all (\<lambda>d. d = CHR ''8'' \<or> d = CHR ''9'') ds)"

definition invalid :: "string \<Rightarrow> validation" where
  "invalid msg = \<lparr>isValid = False, error = Some msg, isTestNumber = None\<rparr>"

definition allowed_test_number :: validation where
  "allowed_test_number = \<lparr>isValid = True, error = None, isTestNumber = Some True\<rparr>"

text \<open>
  \<^verbatim>\<open>!phone\<close> on a JSON value: \<^verbatim>\<open>undefined\<close>, \<^verbatim>\<open>null\<close>, \<^verbatim>\<open>false\<close>, zero and
  the empty string are falsy; every array and every object is truthy.
\<close>

fun truthy :: "json option \<Rightarrow> bool" where
  "truthy None = False"
| "truthy (Some JNull) = False"
| "truthy (Some (JBool b)) = b"
| "truthy (Some (JNum n)) = (n \<noteq> 0)"
| "truthy (Some (JStr s)) = (s \<noteq> [])"
| "truthy (Some (JArr xs)) = True"
| "truthy (Some (JObj kvs)) = True"

text \<open>
  The validator. \<^verbatim>\<open>phone.startsWith('+')\<close> stands before the \<^verbatim>\<open>try\<close>: on a truthy
  value that is not a string, \<^verbatim>\<open>startsWith\<close> is not a function and the call throws a
  TypeError out of the validator (\<open>Inl\<close>). Past that line the value is a string.
\<close>

definition validatePhoneNumber ::
  "libphonenumber \<Rightarrow> json option \<Rightarrow> js_error + validation" where
  "validatePhoneNumber lib phone_value =
     (if \<not> truthy phone_value then Inr (invalid ''Phone number is required'')
      else case phone_value of
        Some (JStr phone) \<Rightarrow>
          if \<not> startsWith phone ''+''
          then Inr (invalid ''Phone number must include country code (start with +)'')
          else
            let isLikelyTestNumber = (TEST_REGEX_1 phone \<or> TEST_REGEX_2 phone) in
            case parsePhoneNumber lib phone of
              Inl thrown \<Rightarrow>
                if isLikelyTestNumber then Inr allowed_test_number
                else Inr (invalid ''Invalid phone number format'')
            | Inr None \<Rightarrow>
                if isLikelyTestNumber then Inr allowed_test_number
                else Inr (invalid ''Invalid phone number format'')
            | Inr (Some phoneNumber) \<Rightarrow>
                if \<not> pn_isValid phoneNumber then
                  (if isLikelyTestNumber then Inr allowed_test_number
                   else Inr (invalid ''Invalid phone number for the specified country''))
                else if \<not> isValidPhoneNumber lib phone \<and> \<not> isLikelyTestNumber
                then Inr (invalid ''Phone number format is not valid'')
                else Inr \<lparr>isValid = True, error = None,
                          isTestNumber = Some isLikelyTestNumber\<rparr>
      | _ \<Rightarrow> Inl (JsError ''TypeError: phone.startsWith is not a function''))"

text \<open>\<^verbatim>\<open>validation.error || '...'\<close>: an absent or empty message gives the default.\<close>

fun error_or :: "string option \<Rightarrow> string \<Rightarrow> string" where
  "error_or None d = d"
| "error_or (Some e) d = (if e = [] then d else e)"

definition start_after_validation ::
  "provider \<Rightarrow> json option \<Rightarrow> response \<times> provider_call list" where
  "start_after_validation p pn =
     (case signInWithOtp p pn of
        Inl thrown \<Rightarrow>
          (error_response 500 ''Failed to send verification code. Please try again.'',
           [SignInWithOtp pn])
      | Inr (OtpError e) \<Rightarrow>
          (error_response 500 ''Failed to send verification code. Please try again.'',
           [SignInWithOtp pn])
      | Inr OtpSent \<Rightarrow>
          (json_response 200
             (JObj (js_object
                [(''message'', Some (JStr ''Verification code sent successfully'')),
                 (''phone_number'', pn)])),
           [SignInWithOtp pn]))"

definition start_handler ::
  "libphonenumber \<Rightarrow> provider \<Rightarrow> VerificationRequest request
     \<Rightarrow> response \<times> provider_call list" where
  "start_handler lib p req =
     (if req_method req = ''OPTIONS'' then (preflight, [])
      else if req_method req \<noteq> ''POST'' then (error_response 405 ''Method not allowed'', [])
      else case payload req of
        Unparseable \<Rightarrow> (error_response 500 ''Internal server error'', [])
      | ParsedNull \<Rightarrow> (error_response 500 ''Internal server error'', [])
      | Parsed b \<Rightarrow>
          (case validatePhoneNumber lib (sr_phone_number b) of
             Inl thrown \<Rightarrow> (error_response 500 ''Internal server error'', [])
           | Inr validation \<Rightarrow>
               if \<not> isValid validation
               then (error_response 400
                       (error_or (error validation)
                          ''Invalid phone number format. Please use international format (e.g., +1234567890)''),
                     [])
               else start_after_validation p (sr_phone_number b)))"

subsection \<open>The profiles table and its trigger\<close>

text \<open>
  A row of \<^verbatim>\<open>auth.users\<close> as the trigger reads it, and a row of
  \<^verbatim>\<open>public.profiles\<close>. The table is the list of its rows; the primary key says that
  their ids are distinct. \<^verbatim>\<open>now()\<close> is the time of the transaction, a parameter.
\<close>

record users_row =
  users_id :: string
  users_email :: "string option"
  users_phone :: "string option"

record profiles_row =
  profiles_id :: string
  profiles_first_name :: "string option"
  profiles_last_name :: "string option"
  profiles_email :: "string option"
  profiles_phone :: "string option"
  profiles_correspondence_address :: "string option"
  profiles_created_at :: nat
  profiles_updated_at :: nat

text \<open>
  \<^verbatim>\<open>insert into public.profiles (id, email, phone) values (new.id, new.email,
  new.phone)\<close>: the columns not named take their defaults.
\<close>

definition new_profile :: "nat \<Rightarrow> users_row \<Rightarrow> profiles_row" where
  "new_profile now new =
     \<lparr>profiles_id = users_id new,
      profiles_first_name = None,
      profiles_last_name = None,
      profiles_email = users_email new,
      profiles_phone = users_phone new,
      profiles_correspondence_address = None,
      profiles_created_at = now,
      profiles_updated_at = now\<rparr>"

text \<open>\<^verbatim>\<open>... on conflict (id) do nothing; return new;\<close>\<close>

definition handle_new_user ::
  "nat \<Rightarrow> users_row \<Rightarrow> profiles_row list \<Rightarrow> users_row \<times> profiles_row list" where
  "handle_new_user now new tbl =
     (new,
      if users_id new \<in> set (map profiles_id tbl) then tbl
      else tbl @ [new_profile now new])"

text \<open>The number of profile rows of one identity.\<close>

definition rows_of :: "string \<Rightarrow> profiles_row list \<Rightarrow> nat" where
  "rows_of i tbl = length (filter (\<lambda>r. profiles_id r = i) tbl)"

text \<open>
  What the library alone says of a string, the three checks of the validator taken
  together: the number parses, \<^verbatim>\<open>isValid()\<close> holds and \<^verbatim>\<open>isValidPhoneNumber\<close>
  holds.
\<close>

definition general_validation :: "libphonenumber \<Rightarrow> string \<Rightarrow> bool" where
  "general_validation lib phone =
     (case parsePhoneNumber lib phone of
        Inr (Some phoneNumber) \<Rightarrow> pn_isValid phoneNumber \<and> isValidPhoneNumber lib phone
      | _ \<Rightarrow> False)"

subsection \<open>Concrete collaborators for the examples\<close>

text \<open>
  A provider configured like the local test setup of the source's documentation: the
  phone \<^verbatim>\<open>+1234567890\<close> with the code \<^verbatim>\<open>123456\<close>. Variants of it drop the
  session, the user or the profile row. \<open>failing_lib\<close> is a phone library for which no
  string parses.
\<close>

definition failing_lib :: libphonenumber where
  "failing_lib = \<lparr>parsePhoneNumber = (\<lambda>s. Inr None), isValidPhoneNumber = (\<lambda>s. False)\<rparr>"

definition demo_session :: session where
  "demo_session =
     [(''access_token'', JStr ''token-1''),
      (''refresh_token'', JStr ''refresh-1''),
      (''expires_in'', JNum 3600),
      (''token_type'', JStr ''bearer'')]"

definition demo_user :: user where
  "demo_user = \<lparr>user_id = ''user-1'', user_phone = ''1234567890''\<rparr>"

definition demo_profile :: profile where
  "demo_profile =
     \<lparr>profile_email = None, profile_first_name = Some ''Luiza'', profile_last_name = None,
      profile_phone = Some ''1234567890'', profile_correspondence_address = None\<rparr>"

definition rejected :: auth_error where
  "rejected = \<lparr>ae_message = ''Token has expired or is invalid'', ae_status = 403\<rparr>"

definition send_failed :: auth_error where
  "send_failed =
     \<lparr>ae_message = ''Error sending confirmation OTP to provider'', ae_status = 422\<rparr>"

definition denied :: postgrest_error where
  "denied = \<lparr>pe_message = ''permission denied for table profiles'', pe_code = ''42501''\<rparr>"

definition demo_provider :: provider where
  "demo_provider =
     \<lparr>signInWithOtp = (\<lambda>phone.
        if phone = Some (JStr ''+1234567890'') then Inr OtpSent
        else Inr (OtpError send_failed)),
      verifyOtp = (\<lambda>phone token.
        if phone = Some ''+1234567890'' \<and> token = Some ''123456''
        then Inr (VerifyData (Some demo_session) (Some demo_user))
        else Inr (VerifyError rejected)),
      selectProfile = (\<lambda>token i.
        if token = Some (JStr ''token-1'') \<and> i = ''user-1'' then ReadSuccess (Some demo_profile)
        else ReadFailure denied)\<rparr>"

definition sessionless_provider :: provider where
  "sessionless_provider =
     demo_provider\<lparr>verifyOtp := (\<lambda>phone token. Inr (VerifyData None (Some demo_user)))\<rparr>"

definition userless_provider :: provider where
  "userless_provider =
     demo_provider\<lparr>verifyOtp := (\<lambda>phone token. Inr (VerifyData (Some demo_session) None))\<rparr>"

definition unreadable_provider :: provider where
  "unreadable_provider = demo_provider\<lparr>selectProfile := (\<lambda>token i. ReadFailure denied)\<rparr>"

definition rowless_provider :: provider where
  "rowless_provider = demo_provider\<lparr>selectProfile := (\<lambda>token i. ReadSuccess None)\<rparr>"

definition verify_request :: "string \<Rightarrow> string \<Rightarrow> VerificationConfirmRequest request" where
  "verify_request phone code =
     \<lparr>req_method = ''POST'',
      payload = Parsed \<lparr>phone_number = Some phone, verification_code = Some code\<rparr>\<rparr>"

definition start_request :: "json \<Rightarrow> VerificationRequest request" where
  "start_request phone =
     \<lparr>req_method = ''POST'', payload = Parsed \<lparr>sr_phone_number = Some phone\<rparr>\<rparr>"

definition demo_new_user :: users_row where
  "demo_new_user =
     \<lparr>users_id = ''user-1'', users_email = None, users_phone = Some ''1234567890''\<rparr>"

section \<open>Properties\<close>

subsection \<open>Auxiliary facts\<close>

lemma test_1_starts: "TEST_REGEX_1 s \<Longrightarrow> s \<noteq> [] \<and> startsWith s ''+''"
  by (cases s) (auto simp: TEST_REGEX_1_def startsWith_def)

lemma test_2_starts: "TEST_REGEX_2 s \<Longrightarrow> s \<noteq> [] \<and> startsWith s ''+''"
  by (cases s) (auto simp: startsWith_def)

text \<open>
  Past the two early returns, the start validator accepts exactly the test shapes and
  the strings the library accepts.
\<close>

lemma validate_start_char:
  assumes "phone \<noteq> []" and "startsWith phone ''+''"
  shows "\<exists>v. validatePhoneNumber lib (Some (JStr phone)) = Inr v
           \<and> isValid v
              = (TEST_REGEX_1 phone \<or> TEST_REGEX_2 phone \<or> general_validation lib phone)"
  using assms
  by (auto simp: validatePhoneNumber_def general_validation_def invalid_def
      allowed_test_number_def Let_def split: sum.splits option.splits)

text \<open>
  The validator returns a verdict on a falsy value and on a string, and throws on
  every other value.
\<close>

lemma validate_returns_iff:
  "(\<exists>v. validatePhoneNumber lib pn = Inr v) \<longleftrightarrow> (\<not> truthy pn \<or> (\<exists>phone. pn = Some (JStr phone)))"
proof (cases pn)
  case None
  then show ?thesis by (simp add: validatePhoneNumber_def)
next
  case (Some j)
  then show ?thesis
    by (cases j)
       (auto simp: validatePhoneNumber_def Let_def split: sum.splits option.splits)
qed

text \<open>
  Every test shape of the start validator also matches the expression of the verify
  handler, so no test number tells the two validators apart.
\<close>

lemma test_shapes_match_PHONE_REGEX:
  assumes "TEST_REGEX_1 s \<or> TEST_REGEX_2 s"
  shows "PHONE_REGEX s"
  using assms
proof
  assume t: "TEST_REGEX_1 s"
  have "s = take 8 s @ drop 8 s" by simp
  with t obtain ds where s: "s = ''+1234567'' @ ds" and ds: "length ds = 3" "list_all is_digit ds"
    unfolding TEST_REGEX_1_def by metis
  show ?thesis unfolding s using ds by (simp add: is_digit_def)
next
  assume t: "TEST_REGEX_2 s"
  then obtain d ds where s: "s = CHR ''+'' # d # ds"
    by (cases s; cases "tl s") auto
  from t have d: "d = CHR ''8'' \<or> d = CHR ''9''"
    and len: "length ds = 9 \<or> length ds = 10"
    and all: "\<forall>x\<in>set ds. x = CHR ''8'' \<or> x = CHR ''9''"
    unfolding s by (simp_all add: list_all_iff)
  from d have d19: "d \<in> set ''123456789''" by auto
  have dig: "is_digit x" if "x = CHR ''8'' \<or> x = CHR ''9''" for x
    using that by (auto simp: is_digit_def)
  from all dig have "list_all is_digit ds" unfolding list_all_iff by blast
  moreover from len have "1 \<le> length ds \<and> length ds \<le> 14" by auto
  ultimately show ?thesis unfolding s using d19 by simp
qed

text \<open>Under the primary key an id has one row or none.\<close>

lemma rows_of_distinct:
  "distinct (map profiles_id tbl) \<Longrightarrow>
     rows_of i tbl = (if i \<in> set (map profiles_id tbl) then 1 else 0)"
  by (induction tbl) (auto simp: rows_of_def)

subsection \<open>The verify handler\<close>

text \<open>
  C1. A POST whose phone number matches the format, whose code passes the shape check
  and whose redeem call returns data with a session and a user is answered 200. The body
  holds the message, the provider's session object as it was received, and a user object
  with the keys id, phone and profile; profile has the five keys email, first_name,
  last_name, phone and correspondence_address, each the column of the row that was read,
  and null when the column is null, when no row came back or when the read failed.
\<close>

theorem verify_success_200:
  assumes "req_method req = ''POST''"
    and "payload req = Parsed b"
    and "validatePhoneNumber_verify (phone_number b)"
    and "\<not> bad_code (verification_code b)"
    and "verifyOtp p (phone_number b) (verification_code b) = Inr (VerifyData (Some s) (Some u))"
  shows "let rd = selectProfile p (map_of s ''access_token'') (user_id u);
             col = (\<lambda>f. case rd of ReadSuccess (Some row) \<Rightarrow> or_null (f row) | _ \<Rightarrow> JNull)
         in status (fst (verify_handler p req)) = 200
          \<and> body (fst (verify_handler p req)) =
              Json (JObj [(''message'', JStr ''Phone verification successful''),
                          (''session'', JObj s),
                          (''user'', JObj [(''id'', JStr (user_id u)),
                                          (''phone'', JStr (user_phone u)),
                                          (''profile'', JObj
                                             [(''email'', col profile_email),
                                              (''first_name'', col profile_first_name),
                                              (''last_name'', col profile_last_name),
                                              (''phone'', col profile_phone),
                                              (''correspondence_address'',
                                                 col profile_correspondence_address)])])])"
  using assms
  by (simp add: verify_handler_def verify_after_otp_def json_response_def success_body_def Let_def
      split: profile_read.split option.split)

theorem verify_success_200_witness:
  "validatePhoneNumber_verify (Some ''+1234567890'') \<and> \<not> bad_code (Some ''123456'')
   \<and> verifyOtp demo_provider (Some ''+1234567890'') (Some ''123456'')
       = Inr (VerifyData (Some demo_session) (Some demo_user))
   \<and> status (fst (verify_handler demo_provider (verify_request ''+1234567890'' ''123456''))) = 200
   \<and> body (fst (verify_handler demo_provider (verify_request ''+1234567890'' ''123456''))) =
       Json (JObj [(''message'', JStr ''Phone verification successful''),
                   (''session'', JObj demo_session),
                   (''user'', JObj [(''id'', JStr ''user-1''),
                                   (''phone'', JStr ''1234567890''),
                                   (''profile'', JObj
                                      [(''email'', JNull),
                                       (''first_name'', JStr ''Luiza''),
                                       (''last_name'', JNull),
                                       (''phone'', JStr ''1234567890''),
                                       (''correspondence_address'', JNull)])])])"
  using verify_success_200
    [of "verify_request ''+1234567890'' ''123456''"
        "\<lparr>phone_number = Some ''+1234567890'', verification_code = Some ''123456''\<rparr>"
        demo_provider demo_session demo_user]
  by (simp add: verify_request_def demo_provider_def demo_session_def demo_user_def
      demo_profile_def validatePhoneNumber_verify_def is_digit_def)

text \<open>
  C2. When the redeem call is reached and returns data, not an error, a missing session
  is answered 500 with one message and a missing user (the session being there) is
  answered 500 with another; the two messages differ, and neither answer is a 400.
\<close>

theorem missing_session_or_user_500:
  assumes "req_method req = ''POST''"
    and "payload req = Parsed b"
    and "validatePhoneNumber_verify (phone_number b)"
    and "\<not> bad_code (verification_code b)"
    and "verifyOtp p (phone_number b) (verification_code b) = Inr (VerifyData session_opt user_opt)"
  shows "(session_opt = None \<longrightarrow>
            status (fst (verify_handler p req)) = 500
          \<and> body (fst (verify_handler p req))
              = Json (JObj [(''error'', JStr ''Verification failed. No session created.'')]))
       \<and> (session_opt \<noteq> None \<and> user_opt = None \<longrightarrow>
            status (fst (verify_handler p req)) = 500
          \<and> body (fst (verify_handler p req))
              = Json (JObj [(''error'', JStr ''Verification failed. No user data available.'')]))
       \<and> ''Verification failed. No session created.''
            \<noteq> ''Verification failed. No user data available.''"
  using assms
  by (auto simp: verify_handler_def verify_after_otp_def error_response_def json_response_def)

theorem missing_session_or_user_500_witness:
  "validatePhoneNumber_verify (Some ''+1234567890'') \<and> \<not> bad_code (Some ''123456'')
   \<and> verifyOtp sessionless_provider (Some ''+1234567890'') (Some ''123456'')
       = Inr (VerifyData None (Some demo_user))
   \<and> status (fst (verify_handler sessionless_provider
                    (verify_request ''+1234567890'' ''123456''))) = 500
   \<and> body (fst (verify_handler sessionless_provider (verify_request ''+1234567890'' ''123456'')))
       = Json (JObj [(''error'', JStr ''Verification failed. No session created.'')])
   \<and> verifyOtp userless_provider (Some ''+1234567890'') (Some ''123456'')
       = Inr (VerifyData (Some demo_session) None)
   \<and> status (fst (verify_handler userless_provider
                    (verify_request ''+1234567890'' ''123456''))) = 500
   \<and> body (fst (verify_handler userless_provider (verify_request ''+1234567890'' ''123456'')))
       = Json (JObj [(''error'', JStr ''Verification failed. No user data available.'')])"
  using missing_session_or_user_500
    [of "verify_request ''+1234567890'' ''123456''"
        "\<lparr>phone_number = Some ''+1234567890'', verification_code = Some ''123456''\<rparr>"
        sessionless_provider None "Some demo_user"]
    missing_session_or_user_500
    [of "verify_request ''+1234567890'' ''123456''"
        "\<lparr>phone_number = Some ''+1234567890'', verification_code = Some ''123456''\<rparr>"
        userless_provider "Some demo_session" None]
  by (simp add: verify_request_def sessionless_provider_def userless_provider_def
      demo_provider_def validatePhoneNumber_verify_def is_digit_def)




text \<open>
  C4. An error returned by the redeem call is answered 400 with exactly
  "Invalid verification code". An error returned, or an exception thrown, by the send
  call of the start handler is answered 500 with a fixed retry message. Both bodies are
  constants: nothing of the provider's error reaches them.
\<close>

theorem provider_errors_not_leaked:
  "(req_method req = ''POST'' \<and> payload req = Parsed b
      \<and> validatePhoneNumber_verify (phone_number b) \<and> \<not> bad_code (verification_code b)
      \<and> verifyOtp p (phone_number b) (verification_code b) = Inr (VerifyError e)
    \<longrightarrow> status (fst (verify_handler p req)) = 400
      \<and> body (fst (verify_handler p req))
          = Json (JObj [(''error'', JStr ''Invalid verification code'')]))
   \<and> (req_method sreq = ''POST'' \<and> payload sreq = Parsed sb
      \<and> validatePhoneNumber lib (sr_phone_number sb) = Inr v \<and> isValid v
      \<and> (signInWithOtp q (sr_phone_number sb) = Inr (OtpError e')
         \<or> signInWithOtp q (sr_phone_number sb) = Inl thrown)
    \<longrightarrow> status (fst (start_handler lib q sreq)) = 500
      \<and> body (fst (start_handler lib q sreq))
          = Json (JObj [(''error'', JStr ''Failed to send verification code. Please try again.'')]))"
  by (auto simp: verify_handler_def verify_after_otp_def start_handler_def
      start_after_validation_def error_response_def json_response_def)

theorem provider_errors_not_leaked_witness:
  "validatePhoneNumber_verify (Some ''+1234567890'') \<and> \<not> bad_code (Some ''000000'')
   \<and> verifyOtp demo_provider (Some ''+1234567890'') (Some ''000000'') = Inr (VerifyError rejected)
   \<and> status (fst (verify_handler demo_provider (verify_request ''+1234567890'' ''000000''))) = 400
   \<and> body (fst (verify_handler demo_provider (verify_request ''+1234567890'' ''000000'')))
       = Json (JObj [(''error'', JStr ''Invalid verification code'')])
   \<and> validatePhoneNumber failing_lib (Some (JStr ''+1234567891'')) = Inr allowed_test_number
   \<and> isValid allowed_test_number
   \<and> signInWithOtp demo_provider (Some (JStr ''+1234567891'')) = Inr (OtpError send_failed)
   \<and> status (fst (start_handler failing_lib demo_provider
                    (start_request (JStr ''+1234567891'')))) = 500
   \<and> body (fst (start_handler failing_lib demo_provider (start_request (JStr ''+1234567891''))))
       = Json (JObj [(''error'', JStr ''Failed to send verification code. Please try again.'')])"
  using provider_errors_not_leaked
    [of "verify_request ''+1234567890'' ''000000''"
        "\<lparr>phone_number = Some ''+1234567890'', verification_code = Some ''000000''\<rparr>"
        demo_provider rejected
        "start_request (JStr ''+1234567891'')"
        "\<lparr>sr_phone_number = Some (JStr ''+1234567891'')\<rparr>"
        failing_lib allowed_test_number demo_provider send_failed]
  by (simp add: verify_request_def start_request_def demo_provider_def failing_lib_def
      validatePhoneNumber_verify_def is_digit_def validatePhoneNumber_def startsWith_def
      TEST_REGEX_1_def allowed_test_number_def)

text \<open>
  C5. When the redeem call gave a session and a user and the profile read then returns
  an error or no row, the answer is still 200 and each of the five profile fields of the
  body is null.
\<close>

theorem profile_read_failure_still_200:
  assumes "req_method req = ''POST''"
    and "payload req = Parsed b"
    and "validatePhoneNumber_verify (phone_number b)"
    and "\<not> bad_code (verification_code b)"
    and "verifyOtp p (phone_number b) (verification_code b) = Inr (VerifyData (Some s) (Some u))"
    and "selectProfile p (map_of s ''access_token'') (user_id u) = ReadFailure e
         \<or> selectProfile p (map_of s ''access_token'') (user_id u) = ReadSuccess None"
  shows "status (fst (verify_handler p req)) = 200
       \<and> body (fst (verify_handler p req)) =
           Json (JObj [(''message'', JStr ''Phone verification successful''),
                       (''session'', JObj s),
                       (''user'', JObj [(''id'', JStr (user_id u)),
                                       (''phone'', JStr (user_phone u)),
                                       (''profile'', JObj
                                          [(''email'', JNull),
                                           (''first_name'', JNull),
                                           (''last_name'', JNull),
                                           (''phone'', JNull),
                                           (''correspondence_address'', JNull)])])])"
  using assms
  by (auto simp: verify_handler_def verify_after_otp_def json_response_def success_body_def)

theorem profile_read_failure_still_200_witness:
  "validatePhoneNumber_verify (Some ''+1234567890'') \<and> \<not> bad_code (Some ''123456'')
   \<and> verifyOtp unreadable_provider (Some ''+1234567890'') (Some ''123456'')
       = Inr (VerifyData (Some demo_session) (Some demo_user))
   \<and> selectProfile unreadable_provider (map_of demo_session ''access_token'') (user_id demo_user)
       = ReadFailure denied
   \<and> status (fst (verify_handler unreadable_provider
                    (verify_request ''+1234567890'' ''123456''))) = 200
   \<and> selectProfile rowless_provider (map_of demo_session ''access_token'') (user_id demo_user)
       = ReadSuccess None
   \<and> status (fst (verify_handler rowless_provider
                    (verify_request ''+1234567890'' ''123456''))) = 200
   \<and> body (fst (verify_handler rowless_provider (verify_request ''+1234567890'' ''123456''))) =
       Json (JObj [(''message'', JStr ''Phone verification successful''),
                   (''session'', JObj demo_session),
                   (''user'', JObj [(''id'', JStr ''user-1''),
                                   (''phone'', JStr ''1234567890''),
                                   (''profile'', JObj
                                      [(''email'', JNull),
                                       (''first_name'', JNull),
                                       (''last_name'', JNull),
                                       (''phone'', JNull),
                                       (''correspondence_address'', JNull)])])])"
  using profile_read_failure_still_200
    [of "verify_request ''+1234567890'' ''123456''"
        "\<lparr>phone_number = Some ''+1234567890'', verification_code = Some ''123456''\<rparr>"
        unreadable_provider demo_session demo_user denied]
    profile_read_failure_still_200
    [of "verify_request ''+1234567890'' ''123456''"
        "\<lparr>phone_number = Some ''+1234567890'', verification_code = Some ''123456''\<rparr>"
        rowless_provider demo_session demo_user denied]
  by (simp add: verify_request_def unreadable_provider_def rowless_provider_def
      demo_provider_def demo_user_def validatePhoneNumber_verify_def is_digit_def)

subsection \<open>The start handler and its validator\<close>

text \<open>
  C6, as the code has it. The validator accepts every string that is \<^verbatim>\<open>+1234567\<close>
  followed by exactly three digits, and every string that is \<^verbatim>\<open>+\<close> followed by ten or
  eleven characters each of which is 8 or 9. For these it returns isValid true with the
  test-number flag set and no error, whatever the phone library says of the string.
\<close>

theorem test_numbers_accepted:
  assumes "TEST_REGEX_1 phone \<or> TEST_REGEX_2 phone"
  shows "validatePhoneNumber lib (Some (JStr phone))
         = Inr \<lparr>isValid = True, error = None, isTestNumber = Some True\<rparr>"
proof -
  from assms have "phone \<noteq> [] \<and> startsWith phone ''+''"
    using test_1_starts test_2_starts by blast
  with assms show ?thesis
    by (auto simp: validatePhoneNumber_def allowed_test_number_def Let_def
        split: sum.splits option.splits)
qed

theorem test_numbers_accepted_witness:
  "TEST_REGEX_1 ''+1234567890'' \<and> \<not> general_validation failing_lib ''+1234567890''
   \<and> validatePhoneNumber failing_lib (Some (JStr ''+1234567890''))
       = Inr \<lparr>isValid = True, error = None, isTestNumber = Some True\<rparr>
   \<and> TEST_REGEX_2 ''+8989898989'' \<and> \<not> general_validation failing_lib ''+8989898989''
   \<and> validatePhoneNumber failing_lib (Some (JStr ''+8989898989''))
       = Inr \<lparr>isValid = True, error = None, isTestNumber = Some True\<rparr>"
  using test_numbers_accepted [of "''+1234567890''" failing_lib]
    test_numbers_accepted [of "''+8989898989''" failing_lib]
  by (simp add: TEST_REGEX_1_def is_digit_def general_validation_def failing_lib_def)

text \<open>
  A string of ten digits that starts with 8, after the plus sign, is not of the second
  shape: when the library does not accept \<^verbatim>\<open>+8123456789\<close> the validator rejects it.
\<close>

theorem leading_8_counterexample:
  "length ''8123456789'' = 10 \<and> list_all is_digit ''8123456789''
   \<and> hd ''8123456789'' = CHR ''8''
   \<and> \<not> general_validation failing_lib ''+8123456789''
   \<and> validatePhoneNumber failing_lib (Some (JStr ''+8123456789''))
       = Inr \<lparr>isValid = False, error = Some ''Invalid phone number format'',
               isTestNumber = None\<rparr>"
  by (simp add: is_digit_def general_validation_def failing_lib_def validatePhoneNumber_def
      startsWith_def TEST_REGEX_1_def invalid_def)

text \<open>
  C7, as the code has it. Take a POST to the start handler whose phone number fails
  validation: the validator does not return a verdict with isValid true. The handler
  then makes no call to the provider. When the phone number is a string, or is absent or
  another falsy value, the validator returns a verdict and the answer is 400 with a
  non-empty error message; every string that does not start with \<^verbatim>\<open>+\<close> is such a
  case. When the phone number is any other JSON value the validator throws and the
  answer is 500 with "Internal server error".
\<close>

theorem invalid_phone_no_send:
  assumes "req_method req = ''POST''"
    and "payload req = Parsed b"
    and "\<forall>v. validatePhoneNumber lib (sr_phone_number b) = Inr v \<longrightarrow> \<not> isValid v"
  shows "snd (start_handler lib p req) = []
       \<and> (\<not> truthy (sr_phone_number b) \<or> (\<exists>phone. sr_phone_number b = Some (JStr phone))
            \<longrightarrow> status (fst (start_handler lib p req)) = 400
              \<and> (\<exists>msg. msg \<noteq> []
                    \<and> body (fst (start_handler lib p req))
                        = Json (JObj [(''error'', JStr msg)])))
       \<and> (truthy (sr_phone_number b) \<and> (\<forall>phone. sr_phone_number b \<noteq> Some (JStr phone))
            \<longrightarrow> status (fst (start_handler lib p req)) = 500
              \<and> body (fst (start_handler lib p req))
                  = Json (JObj [(''error'', JStr ''Internal server error'')]))
       \<and> (\<forall>phone. \<not> startsWith phone ''+''
             \<longrightarrow> (\<exists>v. validatePhoneNumber lib (Some (JStr phone)) = Inr v \<and> \<not> isValid v))"
proof -
  let ?r = "validatePhoneNumber lib (sr_phone_number b)"
  have not_plus: "\<exists>v. validatePhoneNumber lib (Some (JStr phone)) = Inr v \<and> \<not> isValid v"
    if "\<not> startsWith phone ''+''" for phone
    using that by (simp add: validatePhoneNumber_def invalid_def)
  have msg: "error_or (error v) d \<noteq> []" if "d \<noteq> []" for v :: validation and d
    using that by (cases "error v") auto
  have returns: "(\<exists>v. ?r = Inr v)
      \<longleftrightarrow> (\<not> truthy (sr_phone_number b) \<or> (\<exists>phone. sr_phone_number b = Some (JStr phone)))"
    by (rule validate_returns_iff)
  show ?thesis
  proof (cases ?r)
    case (Inl thrown)
    with assms(1,2) have "start_handler lib p req = (error_response 500 ''Internal server error'', [])"
      by (simp add: start_handler_def)
    moreover from Inl returns
    have "truthy (sr_phone_number b) \<and> (\<forall>phone. sr_phone_number b \<noteq> Some (JStr phone))"
      by auto
    ultimately show ?thesis using not_plus
      by (simp add: error_response_def json_response_def)
  next
    case (Inr v)
    with assms(3) have "\<not> isValid v" by simp
    with Inr assms(1,2) have "start_handler lib p req
        = (error_response 400 (error_or (error v)
             ''Invalid phone number format. Please use international format (e.g., +1234567890)''),
           [])"
      by (simp add: start_handler_def)
    moreover from Inr returns
    have "\<not> truthy (sr_phone_number b) \<or> (\<exists>phone. sr_phone_number b = Some (JStr phone))"
      by auto
    ultimately show ?thesis using not_plus msg
      by (auto simp: error_response_def json_response_def)
  qed
qed

theorem invalid_phone_no_send_witness:
  "\<not> startsWith ''invalid-phone'' ''+''
   \<and> validatePhoneNumber failing_lib (Some (JStr ''invalid-phone''))
       = Inr \<lparr>isValid = False,
               error = Some ''Phone number must include country code (start with +)'',
               isTestNumber = None\<rparr>
   \<and> status (fst (start_handler failing_lib demo_provider
                    (start_request (JStr ''invalid-phone'')))) = 400
   \<and> body (fst (start_handler failing_lib demo_provider (start_request (JStr ''invalid-phone''))))
       = Json (JObj [(''error'',
                      JStr ''Phone number must include country code (start with +)'')])
   \<and> snd (start_handler failing_lib demo_provider (start_request (JStr ''invalid-phone''))) = []
   \<and> truthy (Some (JNum 12345))
   \<and> validatePhoneNumber failing_lib (Some (JNum 12345))
       = Inl (JsError ''TypeError: phone.startsWith is not a function'')
   \<and> status (fst (start_handler failing_lib demo_provider (start_request (JNum 12345)))) = 500
   \<and> body (fst (start_handler failing_lib demo_provider (start_request (JNum 12345))))
       = Json (JObj [(''error'', JStr ''Internal server error'')])
   \<and> snd (start_handler failing_lib demo_provider (start_request (JNum 12345))) = []"
  using invalid_phone_no_send
    [of "start_request (JStr ''invalid-phone'')"
        "\<lparr>sr_phone_number = Some (JStr ''invalid-phone'')\<rparr>" failing_lib demo_provider]
    invalid_phone_no_send
    [of "start_request (JNum 12345)" "\<lparr>sr_phone_number = Some (JNum 12345)\<rparr>"
        failing_lib demo_provider]
  by (simp add: start_request_def start_handler_def validatePhoneNumber_def startsWith_def
      invalid_def error_response_def json_response_def)

text \<open>
  The body \<^verbatim>\<open>{"phone_number": 12345}\<close> is not answered 400: the number is truthy,
  \<^verbatim>\<open>startsWith\<close> throws, and the answer is 500.
\<close>

theorem non_string_phone_counterexample:
  "validatePhoneNumber failing_lib (Some (JNum 12345))
     = Inl (JsError ''TypeError: phone.startsWith is not a function'')
   \<and> status (fst (start_handler failing_lib demo_provider (start_request (JNum 12345)))) = 500
   \<and> status (fst (start_handler failing_lib demo_provider (start_request (JNum 12345)))) \<noteq> 400"
  by (simp add: start_request_def start_handler_def validatePhoneNumber_def
      error_response_def json_response_def)

text \<open>
  C10. The format check of the verify handler and the validator of the start handler do
  not agree. No test number separates them, so the separating string is one on which the
  phone library decides: for every library that does not accept \<^verbatim>\<open>+12\<close>, the verify
  handler's check accepts that string and the start handler's validator rejects it.
\<close>

theorem validators_disagree:
  assumes "\<not> general_validation lib ''+12''"
  shows "validatePhoneNumber_verify (Some ''+12'')
         \<and> (\<exists>v. validatePhoneNumber lib (Some (JStr ''+12'')) = Inr v \<and> \<not> isValid v)"
proof -
  have "\<exists>v. validatePhoneNumber lib (Some (JStr ''+12'')) = Inr v
          \<and> isValid v = (TEST_REGEX_1 ''+12'' \<or> TEST_REGEX_2 ''+12''
                          \<or> general_validation lib ''+12'')"
    by (rule validate_start_char) (simp_all add: startsWith_def)
  with assms show ?thesis
    by (auto simp: validatePhoneNumber_verify_def is_digit_def TEST_REGEX_1_def)
qed

theorem validators_disagree_witness:
  "\<not> general_validation failing_lib ''+12''
   \<and> validatePhoneNumber_verify (Some ''+12'')
   \<and> validatePhoneNumber failing_lib (Some (JStr ''+12''))
       = Inr \<lparr>isValid = False, error = Some ''Invalid phone number format'',
               isTestNumber = None\<rparr>"
  using validators_disagree [of failing_lib]
  by (simp add: general_validation_def failing_lib_def validatePhoneNumber_def startsWith_def
      TEST_REGEX_1_def invalid_def)

subsection \<open>Both handlers\<close>

text \<open>
  C9. A POST whose body is not JSON is answered 500 by either handler, and the body of
  the answer is the object with the single key error and the value
  "Internal server error".
\<close>

theorem malformed_body_500:
  "status (fst (verify_handler p \<lparr>req_method = ''POST'', payload = Unparseable\<rparr>)) = 500
   \<and> body (fst (verify_handler p \<lparr>req_method = ''POST'', payload = Unparseable\<rparr>))
       = Json (JObj [(''error'', JStr ''Internal server error'')])
   \<and> status (fst (start_handler lib q \<lparr>req_method = ''POST'', payload = Unparseable\<rparr>)) = 500
   \<and> body (fst (start_handler lib q \<lparr>req_method = ''POST'', payload = Unparseable\<rparr>))
       = Json (JObj [(''error'', JStr ''Internal server error'')])"
  by (simp add: verify_handler_def start_handler_def error_response_def json_response_def)

subsection \<open>The trigger\<close>

text \<open>
  C8. On a table that respects its primary key, \<^verbatim>\<open>handle_new_user\<close> returns the new
  identity record as it got it. When no row has the identity's id it appends one row
  with that id, the identity's email and phone, and the defaults elsewhere; when a row
  with that id exists the table is unchanged. Running the trigger again for the same id
  changes nothing. Afterwards the ids are still distinct and the identity has exactly
  one row.
\<close>

theorem handle_new_user_one_row:
  assumes "distinct (map profiles_id tbl)"
  shows "fst (handle_new_user now new tbl) = new
       \<and> (users_id new \<notin> set (map profiles_id tbl) \<longrightarrow>
            snd (handle_new_user now new tbl)
              = tbl @ [\<lparr>profiles_id = users_id new,
                        profiles_first_name = None,
                        profiles_last_name = None,
                        profiles_email = users_email new,
                        profiles_phone = users_phone new,
                        profiles_correspondence_address = None,
                        profiles_created_at = now,
                        profiles_updated_at = now\<rparr>])
       \<and> (users_id new \<in> set (map profiles_id tbl) \<longrightarrow>
            snd (handle_new_user now new tbl) = tbl)
       \<and> (users_id new' = users_id new \<longrightarrow>
            snd (handle_new_user now' new' (snd (handle_new_user now new tbl)))
              = snd (handle_new_user now new tbl))
       \<and> distinct (map profiles_id (snd (handle_new_user now new tbl)))
       \<and> rows_of (users_id new) (snd (handle_new_user now new tbl)) = 1"
proof -
  let ?tbl' = "snd (handle_new_user now new tbl)"
  have ids: "users_id new \<in> set (map profiles_id ?tbl')"
    by (simp add: handle_new_user_def new_profile_def)
  have dist: "distinct (map profiles_id ?tbl')"
    using assms by (simp add: handle_new_user_def new_profile_def)
  have one: "rows_of (users_id new) ?tbl' = 1"
    using rows_of_distinct [OF dist, of "users_id new"] ids by simp
  have twice: "snd (handle_new_user now' new' ?tbl') = ?tbl'" if "users_id new' = users_id new"
    using ids that by (simp add: handle_new_user_def)
  show ?thesis using dist one twice
    by (simp add: handle_new_user_def new_profile_def)
qed

theorem handle_new_user_one_row_witness:
  "distinct (map profiles_id ([] :: profiles_row list))
   \<and> fst (handle_new_user 7 demo_new_user []) = demo_new_user
   \<and> snd (handle_new_user 7 demo_new_user [])
       = [\<lparr>profiles_id = ''user-1'',
           profiles_first_name = None,
           profiles_last_name = None,
           profiles_email = None,
           profiles_phone = Some ''1234567890'',
           profiles_correspondence_address = None,
           profiles_created_at = 7,
           profiles_updated_at = 7\<rparr>]
   \<and> distinct (map profiles_id (snd (handle_new_user 7 demo_new_user [])))
   \<and> users_id demo_new_user \<in> set (map profiles_id (snd (handle_new_user 7 demo_new_user [])))
   \<and> snd (handle_new_user 9 demo_new_user (snd (handle_new_user 7 demo_new_user [])))
       = snd (handle_new_user 7 demo_new_user [])
   \<and> rows_of ''user-1'' (snd (handle_new_user 9 demo_new_user
                                 (snd (handle_new_user 7 demo_new_user [])))) = 1"
  using handle_new_user_one_row [of "[]" 7 demo_new_user demo_new_user 9]
    handle_new_user_one_row
      [of "snd (handle_new_user 7 demo_new_user [])" 9 demo_new_user demo_new_user 9]
  by (simp add: handle_new_user_def new_profile_def demo_new_user_def)

end
